theory Spec2Isabelle
  imports Complex_Main "HOL-Library.Sublist"
begin

section \<open>Pagination policy (utils/pagination\_handler.py)\<close>

text \<open>
  Python integers are unbounded, so page numbers and page sizes are \<open>int\<close>.

  \<^verbatim>\<open>
  def calculate_offset(page, per_page):
      if page < 1: page = 1
      if per_page < 1: per_page = 1
      return (page - 1) * per_page
  \<close>
\<close>

definition calculate_offset :: "int \<Rightarrow> int \<Rightarrow> int" where
  "calculate_offset page per_page =
     (let page = (if page < 1 then 1 else page);
          per_page = (if per_page < 1 then 1 else per_page)
      in (page - 1) * per_page)"

text \<open>
  \<^verbatim>\<open>
  def iter_pages(start_page, max_pages):
      if start_page < 1: start_page = 1
      if max_pages < 1: max_pages = 1
      end_page = start_page + max_pages
      for page in range(start_page, end_page): yield page
  \<close>
  The generator is consumed by one \<open>for\<close> loop only; it is modelled by the list of the
  page numbers it yields.
\<close>

definition iter_pages :: "int \<Rightarrow> int \<Rightarrow> int list" where
  "iter_pages start_page max_pages =
     (let start_page = (if start_page < 1 then 1 else start_page);
          max_pages = (if max_pages < 1 then 1 else max_pages);
          end_page = start_page + max_pages
      in [start_page .. end_page - 1])"

section \<open>Python values and exceptions\<close>

text \<open>
  The exceptions that the modelled code can raise or let through. Only
  \<open>RequestException\<close> (the base class of the HTTP library's errors) is ever caught by
  name; everything else is caught by \<open>except Exception\<close> or not at all.
\<close>

datatype exn = RequestException | ValueError | TypeError | AttributeError | OtherException

text \<open>
  A Python \<open>str\<close> is modelled as a \<open>string\<close>: a list of 8-bit characters, read as the code
  points below 256. The operations of \<open>str\<close> that the code uses follow.
\<close>

text \<open>\<open>s.find(c)\<close> for a one-character needle: the first index, or \<open>-1\<close>.\<close>

definition py_find :: "char \<Rightarrow> string \<Rightarrow> int" where
  "py_find c s = (if c \<in> set s then int (length (takeWhile (\<lambda>x. x \<noteq> c) s)) else - 1)"

text \<open>\<open>s.find(c, start)\<close> with \<open>start \<ge> 0\<close>.\<close>

definition py_find_from :: "char \<Rightarrow> string \<Rightarrow> nat \<Rightarrow> int" where
  "py_find_from c s start =
     (if c \<in> set (drop start s)
      then int (start + length (takeWhile (\<lambda>x. x \<noteq> c) (drop start s))) else - 1)"

text \<open>\<open>s.rfind(c)\<close>: the last index, or \<open>-1\<close>.\<close>

definition py_rfind :: "char \<Rightarrow> string \<Rightarrow> int" where
  "py_rfind c s =
     (if c \<in> set s then int (length s - 1 - length (takeWhile (\<lambda>x. x \<noteq> c) (rev s))) else - 1)"

text \<open>
  Slices \<open>xs[:i]\<close>, \<open>xs[i:]\<close> and \<open>xs[i:j]\<close>. A negative bound counts from the end, and
  bounds beyond the ends are cut off, as Python does.
\<close>

definition py_index :: "'a list \<Rightarrow> int \<Rightarrow> nat" where
  "py_index xs i = (if 0 \<le> i then min (nat i) (length xs) else length xs - nat (- i))"

definition py_slice_to :: "'a list \<Rightarrow> int \<Rightarrow> 'a list" where
  "py_slice_to xs i = take (py_index xs i) xs"

definition py_slice_from :: "'a list \<Rightarrow> int \<Rightarrow> 'a list" where
  "py_slice_from xs i = drop (py_index xs i) xs"

definition py_slice :: "'a list \<Rightarrow> int \<Rightarrow> int \<Rightarrow> 'a list" where
  "py_slice xs i j = take (py_index xs j - py_index xs i) (drop (py_index xs i) xs)"

text \<open>\<open>s.split(c, 1)\<close> when \<open>c\<close> occurs in \<open>s\<close>, and \<open>s.partition(c)\<close>.\<close>

definition split_once :: "char \<Rightarrow> string \<Rightarrow> string \<times> string" where
  "split_once c s = (takeWhile (\<lambda>x. x \<noteq> c) s, tl (dropWhile (\<lambda>x. x \<noteq> c) s))"

definition partition_str :: "char \<Rightarrow> string \<Rightarrow> string \<times> bool \<times> string" where
  "partition_str c s = (if c \<in> set s then (fst (split_once c s), True, snd (split_once c s))
                        else (s, False, []))"

text \<open>\<open>s.split(c)\<close>: all the fields, at least one.\<close>

fun str_split :: "char \<Rightarrow> string \<Rightarrow> string list" where
  "str_split sep [] = [[]]"
| "str_split sep (c # s) =
     (if c = sep then [] # str_split sep s
      else (case str_split sep s of w # ws \<Rightarrow> (c # w) # ws | [] \<Rightarrow> [[c]]))"

text \<open>\<open>s.rstrip(c)\<close> and \<open>s.replace(c, d)\<close> for single characters.\<close>

definition rstrip_char :: "char \<Rightarrow> string \<Rightarrow> string" where
  "rstrip_char c s = rev (dropWhile (\<lambda>x. x = c) (rev s))"

definition replace_char :: "char \<Rightarrow> char \<Rightarrow> string \<Rightarrow> string" where
  "replace_char c d s = map (\<lambda>x. if x = c then d else x) s"

definition is_ascii :: "char \<Rightarrow> bool" where
  "is_ascii c = ((of_char c :: nat) < 128)"

definition is_ascii_alpha :: "char \<Rightarrow> bool" where
  "is_ascii_alpha c =
     (let n = (of_char c :: nat) in (65 \<le> n \<and> n \<le> 90) \<or> (97 \<le> n \<and> n \<le> 122))"

text \<open>\<open>str.lower\<close>, which the code applies to strings of scheme characters only (all ASCII).\<close>

definition ascii_lower :: "char \<Rightarrow> char" where
  "ascii_lower c =
     (let n = (of_char c :: nat) in if 65 \<le> n \<and> n \<le> 90 then char_of (n + 32) else c)"

section \<open>The standard library's URL functions (urllib.parse)\<close>

text \<open>
  \<open>_normalize_linkedin_url\<close> is built on \<open>urlparse\<close>, \<open>parse_qs\<close> and \<open>urlunparse\<close> of
  the standard library. They are modelled from the library's source, statement by
  statement. Three library calls are left as parameters, each behind the guard under which
  the library makes it:
  \<^item> \<open>bracketed_host_ok\<close>: whether \<open>_check_bracketed_host\<close> accepts the text between
    \<open>[\<close> and \<open>]\<close> of a network location (it parses IP addresses);
  \<^item> \<open>nfkc_netloc_ok\<close>: whether \<open>_checknetloc\<close> accepts a network location that is not
    ASCII (it normalises Unicode);
  \<^item> \<open>decode_utf8\<close>: \<open>bytes.decode('utf-8', 'replace')\<close> on percent-decoded bytes that are
    not all ASCII.
\<close>

record urllib =
  bracketed_host_ok :: "string \<Rightarrow> bool"
  nfkc_netloc_ok :: "string \<Rightarrow> bool"
  decode_utf8 :: "string \<Rightarrow> string"

record parse_result =
  scheme :: string
  netloc :: string
  path :: string
  params :: string
  query :: string
  fragment :: string

definition uses_netloc :: "string list" where
  "uses_netloc = ['''', ''ftp'', ''http'', ''gopher'', ''nntp'', ''telnet'',
     ''imap'', ''wais'', ''file'', ''mms'', ''https'', ''shttp'',
     ''snews'', ''prospero'', ''rtsp'', ''rtsps'', ''rtspu'', ''rsync'',
     ''svn'', ''svn+ssh'', ''sftp'', ''nfs'', ''git'', ''git+ssh'',
     ''ws'', ''wss'']"

definition uses_params :: "string list" where
  "uses_params = ['''', ''ftp'', ''hdl'', ''prospero'', ''http'', ''imap'',
     ''https'', ''shttp'', ''rtsp'', ''rtsps'', ''rtspu'', ''sip'',
     ''sips'', ''mms'', ''sftp'', ''tel'']"

definition scheme_chars :: string where
  "scheme_chars = ''abcdefghijklmnopqrstuvwxyzABCDEFGHIJKLMNOPQRSTUVWXYZ0123456789+-.''"

text \<open>\<open>_WHATWG_C0_CONTROL_OR_SPACE\<close>: the characters \<open>0x00\<close> to \<open>0x20\<close>.\<close>

definition whatwg_c0_control_or_space :: "char \<Rightarrow> bool" where
  "whatwg_c0_control_or_space c = ((of_char c :: nat) \<le> 32)"

text \<open>\<open>_UNSAFE_URL_BYTES_TO_REMOVE\<close>: tab, carriage return, line feed.\<close>

definition unsafe_url_bytes_to_remove :: string where
  "unsafe_url_bytes_to_remove = [CHR 0x09, CHR 0x0D, CHR 0x0A]"

text \<open>
  \<^verbatim>\<open>
  def _splitnetloc(url, start=0):
      delim = len(url)
      for c in '/?#':
          wdelim = url.find(c, start)
          if wdelim >= 0: delim = min(delim, wdelim)
      return url[start:delim], url[delim:]
  \<close>
\<close>

definition splitnetloc :: "string \<Rightarrow> nat \<Rightarrow> string \<times> string" where
  "splitnetloc url start =
     (let delim = fold (\<lambda>c delim. let wdelim = py_find_from c url start
                                   in if 0 \<le> wdelim then min delim wdelim else delim)
                       ''/?#'' (int (length url))
      in (py_slice url (int start) delim, py_slice_from url delim))"

text \<open>
  \<^verbatim>\<open>
  def _splitparams(url):
      if '/' in url:
          i = url.find(';', url.rfind('/'))
          if i < 0: return url, ''
      else:
          i = url.find(';')
      return url[:i], url[i+1:]
  \<close>
\<close>

definition splitparams :: "string \<Rightarrow> string \<times> string" where
  "splitparams url =
     (if CHR ''/'' \<in> set url then
        (let i = py_find_from CHR '';'' url (nat (py_rfind CHR ''/'' url))
         in if i < 0 then (url, []) else (py_slice_to url i, py_slice_from url (i + 1)))
      else
        (let i = py_find CHR '';'' url
         in (py_slice_to url i, py_slice_from url (i + 1))))"

text \<open>
  \<open>urlsplit(url)\<close> with the default arguments \<open>scheme=''\<close> and \<open>allow_fragments=True\<close>. The
  part from the fragment split on is \<open>urlsplit_rest\<close>; \<open>ValueError\<close> is raised for an
  unbalanced bracket, for a bracketed host that is not an address, and by \<open>_checknetloc\<close>.
  \<^verbatim>\<open>
      url = url.lstrip(_WHATWG_C0_CONTROL_OR_SPACE)
      for b in _UNSAFE_URL_BYTES_TO_REMOVE: url = url.replace(b, "")
      netloc = query = fragment = ''
      i = url.find(':')
      if i > 0 and url[0].isascii() and url[0].isalpha():
          for c in url[:i]:
              if c not in scheme_chars: break
          else:
              scheme, url = url[:i].lower(), url[i+1:]
      if url[:2] == '//':
          netloc, url = _splitnetloc(url, 2)
          if (('[' in netloc and ']' not in netloc) or
                  (']' in netloc and '[' not in netloc)):
              raise ValueError("Invalid IPv6 URL")
          if '[' in netloc and ']' in netloc:
              bracketed_host = netloc.partition('[')[2].partition(']')[0]
              _check_bracketed_host(bracketed_host)
      if allow_fragments and '#' in url: url, fragment = url.split('#', 1)
      if '?' in url: url, query = url.split('?', 1)
      _checknetloc(netloc)
      v = SplitResult(scheme, netloc, url, query, fragment)
  \<close>
\<close>

definition checknetloc :: "urllib \<Rightarrow> string \<Rightarrow> bool" where
  "checknetloc L netloc' = (netloc' = [] \<or> list_all is_ascii netloc' \<or> nfkc_netloc_ok L netloc')"

definition urlsplit_rest :: "urllib \<Rightarrow> string \<Rightarrow> string \<Rightarrow> string \<Rightarrow> exn + parse_result" where
  "urlsplit_rest L scheme' netloc' url =
     (let (url, fragment') = (if CHR ''#'' \<in> set url then split_once CHR ''#'' url else (url, []));
          (url, query') = (if CHR ''?'' \<in> set url then split_once CHR ''?'' url else (url, []))
      in if \<not> checknetloc L netloc' then Inl ValueError
         else Inr \<lparr>scheme = scheme', netloc = netloc', path = url, params = [],
                   query = query', fragment = fragment'\<rparr>)"

definition urlsplit :: "urllib \<Rightarrow> string \<Rightarrow> exn + parse_result" where
  "urlsplit L url =
     (let url = dropWhile whatwg_c0_control_or_space url;
          url = filter (\<lambda>c. c \<notin> set unsafe_url_bytes_to_remove) url;
          i = py_find CHR '':'' url;
          (scheme', url) =
             (if 0 < i \<and> is_ascii_alpha (hd url) \<and>
                 list_all (\<lambda>c. c \<in> set scheme_chars) (py_slice_to url i)
              then (map ascii_lower (py_slice_to url i), py_slice_from url (i + 1))
              else ([], url))
      in if py_slice_to url 2 = ''//'' then
           (let (netloc', url) = splitnetloc url 2 in
            if (CHR ''['' \<in> set netloc' \<and> CHR '']'' \<notin> set netloc') \<or>
               (CHR '']'' \<in> set netloc' \<and> CHR ''['' \<notin> set netloc')
            then Inl ValueError
            else if CHR ''['' \<in> set netloc' \<and> CHR '']'' \<in> set netloc' \<and>
                    \<not> bracketed_host_ok L
                        (fst (partition_str CHR '']'' (snd (snd (partition_str CHR ''['' netloc')))))
            then Inl ValueError
            else urlsplit_rest L scheme' netloc' url)
         else urlsplit_rest L scheme' [] url)"

text \<open>
  \<^verbatim>\<open>
  def urlparse(url, scheme='', allow_fragments=True):
      splitresult = urlsplit(url, scheme, allow_fragments)
      scheme, netloc, url, query, fragment = splitresult
      if scheme in uses_params and ';' in url:
          url, params = _splitparams(url)
      else:
          params = ''
      result = ParseResult(scheme, netloc, url, params, query, fragment)
  \<close>
\<close>

definition urlparse :: "urllib \<Rightarrow> string \<Rightarrow> exn + parse_result" where
  "urlparse L url =
     (case urlsplit L url of
        Inl e \<Rightarrow> Inl e
      | Inr r \<Rightarrow>
          (if scheme r \<in> set uses_params \<and> CHR '';'' \<in> set (path r)
           then (let (url, params') = splitparams (path r)
                 in Inr (r\<lparr>path := url, params := params'\<rparr>))
           else Inr (r\<lparr>params := []\<rparr>)))"

text \<open>
  \<^verbatim>\<open>
  def urlunsplit(components):
      scheme, netloc, url, query, fragment = components
      if netloc or (scheme and scheme in uses_netloc) or url[:2] == '//':
          if url and url[:1] != '/': url = '/' + url
          url = '//' + (netloc or '') + url
      if scheme: url = scheme + ':' + url
      if query: url = url + '?' + query
      if fragment: url = url + '#' + fragment
      return url

  def urlunparse(components):
      scheme, netloc, url, params, query, fragment = components
      if params: url = "%s;%s" % (url, params)
      return urlunsplit((scheme, netloc, url, query, fragment))
  \<close>
\<close>

definition urlunsplit :: "string \<Rightarrow> string \<Rightarrow> string \<Rightarrow> string \<Rightarrow> string \<Rightarrow> string" where
  "urlunsplit scheme' netloc' url query' fragment' =
     (let url = (if netloc' \<noteq> [] \<or> (scheme' \<noteq> [] \<and> scheme' \<in> set uses_netloc) \<or>
                    py_slice_to url 2 = ''//''
                 then (let url = (if url \<noteq> [] \<and> py_slice_to url 1 \<noteq> ''/'' then ''/'' @ url else url)
                       in ''//'' @ netloc' @ url)
                 else url);
          url = (if scheme' \<noteq> [] then scheme' @ '':'' @ url else url);
          url = (if query' \<noteq> [] then url @ ''?'' @ query' else url);
          url = (if fragment' \<noteq> [] then url @ ''#'' @ fragment' else url)
      in url)"

definition urlunparse :: "parse_result \<Rightarrow> string" where
  "urlunparse r =
     (let url = (if params r \<noteq> [] then path r @ '';'' @ params r else path r)
      in urlunsplit (scheme r) (netloc r) url (query r) (fragment r))"

text \<open>
  Percent-decoding. \<open>unquote_to_bytes\<close> on an ASCII string: split at \<open>%\<close>; an item that
  starts with two hexadecimal digits yields that byte, any other item keeps its \<open>%\<close>.
  \<^verbatim>\<open>
      bits = string.split(b'%')
      if len(bits) == 1: return string
      res = [bits[0]]
      for item in bits[1:]:
          try:
              append(_hextobyte[item[:2]]); append(item[2:])
          except KeyError:
              append(b'%'); append(item)
      return b''.join(res)
  \<close>
\<close>

definition hexdig_val :: "char \<Rightarrow> nat option" where
  "hexdig_val c =
     (let n = (of_char c :: nat) in
      if 48 \<le> n \<and> n \<le> 57 then Some (n - 48)
      else if 65 \<le> n \<and> n \<le> 70 then Some (n - 55)
      else if 97 \<le> n \<and> n \<le> 102 then Some (n - 87)
      else None)"

definition unquote_item :: "string \<Rightarrow> string" where
  "unquote_item item =
     (case item of
        a # b # rest \<Rightarrow>
          (case (hexdig_val a, hexdig_val b) of
             (Some x, Some y) \<Rightarrow> char_of (16 * x + y) # rest
           | _ \<Rightarrow> CHR ''%'' # item)
      | _ \<Rightarrow> CHR ''%'' # item)"

definition unquote_to_bytes :: "string \<Rightarrow> string" where
  "unquote_to_bytes s =
     (case str_split CHR ''%'' s of
        [] \<Rightarrow> []
      | b # items \<Rightarrow> b @ concat (map unquote_item items))"

text \<open>Decoding the bytes as UTF-8: ASCII bytes are themselves, the rest is the library's.\<close>

definition decode_bytes :: "urllib \<Rightarrow> string \<Rightarrow> string" where
  "decode_bytes L bs = (if list_all is_ascii bs then bs else decode_utf8 L bs)"

text \<open>
  \<^verbatim>\<open>
  def unquote(string, encoding='utf-8', errors='replace'):
      if '%' not in string: return string
      bits = _asciire.split(string)          # _asciire = '([\x00-\x7f]+)'
      res = [bits[0]]
      for i in range(1, len(bits), 2):
          append(unquote_to_bytes(bits[i]).decode(encoding, errors))
          append(bits[i + 1])
      return ''.join(res)
  \<close>
  The maximal ASCII runs are decoded, the characters between them are kept.
\<close>

function unquote_runs :: "urllib \<Rightarrow> string \<Rightarrow> string" where
  "unquote_runs L [] = []"
| "unquote_runs L (c # s) =
     (if is_ascii c
      then decode_bytes L (unquote_to_bytes (c # takeWhile is_ascii s)) @
           unquote_runs L (dropWhile is_ascii s)
      else c # unquote_runs L s)"
  by pat_completeness auto
termination
  by (relation "measure (\<lambda>(L, s). length s)") (auto simp: length_dropWhile_le less_Suc_eq_le)

definition unquote :: "urllib \<Rightarrow> string \<Rightarrow> string" where
  "unquote L s = (if CHR ''%'' \<notin> set s then s else unquote_runs L s)"

definition unquote_plus :: "urllib \<Rightarrow> string \<Rightarrow> string" where
  "unquote_plus L s = unquote L (replace_char CHR ''+'' CHR '' '' s)"

text \<open>
  \<open>parse_qsl(qs)\<close> with the defaults \<open>keep_blank_values=False\<close>, \<open>strict_parsing=False\<close>,
  \<open>separator='&'\<close>:
  \<^verbatim>\<open>
      if not qs: return []
      r = []
      for name_value in qs.split(separator):
          if name_value or strict_parsing:
              name, has_eq, value = name_value.partition(eq)
              if value or keep_blank_values:
                  name = _unquote(name); value = _unquote(value)
                  r.append((name, value))
      return r
  \<close>
\<close>

fun parse_qsl_loop :: "urllib \<Rightarrow> string list \<Rightarrow> (string \<times> string) list" where
  "parse_qsl_loop L [] = []"
| "parse_qsl_loop L (name_value # rest) =
     (if name_value \<noteq> [] then
        (let (name, has_eq, val) = partition_str CHR ''='' name_value in
         if val \<noteq> [] then (unquote_plus L name, unquote_plus L val) # parse_qsl_loop L rest
         else parse_qsl_loop L rest)
      else parse_qsl_loop L rest)"

definition parse_qsl :: "urllib \<Rightarrow> string \<Rightarrow> (string \<times> string) list" where
  "parse_qsl L qs = (if qs = [] then [] else parse_qsl_loop L (str_split CHR ''&'' qs))"

text \<open>
  \<^verbatim>\<open>
      parsed_result = {}
      for name, value in pairs:
          if name in parsed_result: parsed_result[name].append(value)
          else: parsed_result[name] = [value]
  \<close>
\<close>

fun parse_qs_loop :: "(string \<times> string) list \<Rightarrow> (string \<rightharpoonup> string list) \<Rightarrow> (string \<rightharpoonup> string list)" where
  "parse_qs_loop [] parsed_result = parsed_result"
| "parse_qs_loop ((name, val) # pairs) parsed_result =
     parse_qs_loop pairs
       (case parsed_result name of
          Some vs \<Rightarrow> parsed_result(name \<mapsto> vs @ [val])
        | None \<Rightarrow> parsed_result(name \<mapsto> [val]))"

definition parse_qs :: "urllib \<Rightarrow> string \<Rightarrow> (string \<rightharpoonup> string list)" where
  "parse_qs L qs = parse_qs_loop (parse_qsl L qs) Map.empty"

section \<open>Result extractor (utils/result\_parser.py)\<close>

text \<open>
  The second half of \<open>_normalize_linkedin_url\<close>, from the host test on: it depends on the
  parsed candidate only.
  \<^verbatim>\<open>
        if "linkedin.com" not in parsed.netloc:
            return None
        if "/company/" not in parsed.path:
            return None
        clean = parsed._replace(query="", fragment="")
        normalized = urlunparse(clean)
        if normalized.endswith("/"):
            normalized = normalized.rstrip("/")
        return normalized
  \<close>
\<close>

definition normalize_parsed :: "parse_result \<Rightarrow> string option" where
  "normalize_parsed parsed =
     (if \<not> sublist ''linkedin.com'' (netloc parsed) then None
      else if \<not> sublist ''/company/'' (path parsed) then None
      else (let clean = parsed\<lparr>query := [], fragment := []\<rparr>;
                normalized = urlunparse clean;
                normalized = (if suffix ''/'' normalized
                              then rstrip_char CHR ''/'' normalized else normalized)
            in Some normalized))"

text \<open>
  \<^verbatim>\<open>
    def _normalize_linkedin_url(raw_url):
        if not raw_url:
            return None
        parsed = urlparse(raw_url)
        if "linkedin.com" not in parsed.netloc and not raw_url.startswith("http"):
            query = parse_qs(parsed.query)
            candidate_list = query.get("q") or query.get("url") or []
            if candidate_list:
                raw_url = candidate_list[0]
                parsed = urlparse(raw_url)
        ...
  \<close>
  A \<open>ValueError\<close> of \<open>urlparse\<close> is not caught here.
\<close>

definition py_or :: "string list option \<Rightarrow> string list option \<Rightarrow> string list option" where
  "py_or a b = (case a of Some (v # vs) \<Rightarrow> a | _ \<Rightarrow> b)"

definition candidate_list :: "(string \<rightharpoonup> string list) \<Rightarrow> string list" where
  "candidate_list query' =
     (case py_or (py_or (query' ''q'') (query' ''url'')) (Some []) of
        Some vs \<Rightarrow> vs
      | None \<Rightarrow> [])"

definition normalize_linkedin_url :: "urllib \<Rightarrow> string \<Rightarrow> exn + string option" where
  "normalize_linkedin_url L raw_url =
     (if raw_url = [] then Inr None
      else
        (case urlparse L raw_url of
           Inl e \<Rightarrow> Inl e
         | Inr parsed \<Rightarrow>
             (if \<not> sublist ''linkedin.com'' (netloc parsed) \<and> \<not> prefix ''http'' raw_url then
                (case candidate_list (parse_qs L (query parsed)) of
                   [] \<Rightarrow> Inr (normalize_parsed parsed)
                 | raw_url # _ \<Rightarrow>
                     (case urlparse L raw_url of
                        Inl e \<Rightarrow> Inl e
                      | Inr parsed \<Rightarrow> Inr (normalize_parsed parsed)))
              else Inr (normalize_parsed parsed))))"

text \<open>
  A page body is read through the markup parser, which is outside the repository:
  \<open>soup.find_all("a")\<close> yields the anchors in document order, each with its \<open>href\<close>
  attribute (if any) and its stripped text \<open>get_text(strip=True)\<close>.
\<close>

record anchor =
  href :: "string option"
  anchor_text :: string

record result_record =
  title :: string
  link :: string
  searchQuery :: string

text \<open>
  \<^verbatim>\<open>
        for anchor in soup.find_all("a"):
            href = anchor.get("href")
            if not href: continue
            normalized = ResultParser._normalize_linkedin_url(href)
            if not normalized: continue
            title_text = anchor.get_text(strip=True) or search_query
            record = {"title": title_text, "link": normalized, "searchQuery": search_query}
            results.append(record)
        return results
  \<close>
\<close>

fun extract_loop :: "urllib \<Rightarrow> string \<Rightarrow> anchor list \<Rightarrow> result_record list \<Rightarrow> exn + result_record list" where
  "extract_loop L search_query [] results = Inr results"
| "extract_loop L search_query (a # anchors) results =
     (case href a of
        None \<Rightarrow> extract_loop L search_query anchors results
      | Some h \<Rightarrow>
          (if h = [] then extract_loop L search_query anchors results
           else
             (case normalize_linkedin_url L h of
                Inl e \<Rightarrow> Inl e
              | Inr None \<Rightarrow> extract_loop L search_query anchors results
              | Inr (Some normalized) \<Rightarrow>
                  (if normalized = [] then extract_loop L search_query anchors results
                   else
                     (let title_text = (if anchor_text a \<noteq> [] then anchor_text a else search_query);
                          record = \<lparr>title = title_text, link = normalized, searchQuery = search_query\<rparr>
                      in extract_loop L search_query anchors (results @ [record]))))))"

definition extract_linkedin_results :: "urllib \<Rightarrow> anchor list \<Rightarrow> string \<Rightarrow> exn + result_record list" where
  "extract_linkedin_results L anchors search_query = extract_loop L search_query anchors []"

section \<open>Discovery orchestrator (utils/linkedin\_search.py)\<close>

subsection \<open>Settings and configuration\<close>

text \<open>
  The settings mapping is read from a JSON file, so a value is any JSON value. Python's
  \<open>float\<close> is kept abstract: \<open>'f\<close> is the type of floating-point numbers, and the
  conversions between numbers and strings that \<open>int()\<close> and \<open>float()\<close> perform are
  parameters. The conversions whose result does not depend on number formats are written
  out: \<open>int\<close> of an \<open>int\<close> or a \<open>bool\<close>, \<open>float\<close> of a \<open>float\<close>, and the \<open>TypeError\<close>
  for \<open>None\<close>, a list or a dictionary.
\<close>

datatype 'f pyval =
    PNone
  | PBool bool
  | PInt int
  | PFloat 'f
  | PStr string
  | PList "'f pyval list"
  | PDict "(string \<times> 'f pyval) list"




text \<open>
  \<^verbatim>\<open>
  @dataclass
  class SearchConfig:
      search_engine: str = "https://www.bing.com/search"
      query_template: str = "site:linkedin.com/company {company}"
      request_timeout_seconds: int = 10
      request_delay_seconds: float = 1.0
      user_agent: str = ("Mozilla/5.0 (compatible; LinkedInCompanyURLMassFinder/1.0)")
  \<close>
  A dataclass does not check its annotations: the three \<open>str\<close> fields hold whatever value
  they are given.
\<close>

record 'f search_config =
  search_engine :: "'f pyval"
  query_template :: "'f pyval"
  request_timeout_seconds :: int
  request_delay_seconds :: 'f
  user_agent :: "'f pyval"

definition default_search_engine :: "'f pyval" where
  "default_search_engine = PStr ''https://www.bing.com/search''"

definition default_query_template :: "'f pyval" where
  "default_query_template = PStr ''site:linkedin.com/company {company}''"



definition default_user_agent :: "'f pyval" where
  "default_user_agent = PStr ''Mozilla/5.0 (compatible; LinkedInCompanyURLMassFinder/1.0)''"



subsection \<open>The outside world\<close>

text \<open>
  The searcher talks to the network and the clock. Every such action is recorded in a trace:
  a request with the answer it got, or a pause. The answer to a request may depend on
  everything that happened before, so the world's \<open>session_get\<close> takes the trace.
  \<open>'h\<close> is the type of page bodies. The other library calls of the searcher are
  parameters too:
  \<^item> \<open>str_format t company\<close> is \<open>t.format(company=company)\<close> for a string \<open>t\<close>;
  \<^item> \<open>to_str v\<close> is the text an f-string gives for a value that is not a string;
  \<^item> \<open>urlencode\<close> is \<open>urllib.parse.urlencode\<close> on a list of pairs of strings;
  \<^item> \<open>session_get cfg trace url\<close> is \<open>_fetch_page\<close>: the body of a successful answer, or the
    exception of the request or of \<open>raise_for_status\<close>;
  \<^item> \<open>find_all_a\<close> gives the anchors of a page body;
  \<^item> \<open>time_sleep d\<close> is \<open>None\<close> when \<open>time.sleep(d)\<close> returns, or the exception it raises.
\<close>

datatype ('f, 'h) event = Fetch string "exn + 'h" | Sleep 'f

record ('f, 'h) world =
  str_format :: "string \<Rightarrow> string \<Rightarrow> exn + string"
  to_str :: "'f pyval \<Rightarrow> string"
  urlencode :: "(string \<times> string) list \<Rightarrow> string"
  session_get :: "'f search_config \<Rightarrow> ('f, 'h) event list \<Rightarrow> string \<Rightarrow> exn + 'h"
  find_all_a :: "'h \<Rightarrow> anchor list"
  time_sleep :: "'f \<Rightarrow> exn option"

text \<open>
  \<open>str(n)\<close> for an integer: decimal digits, and \<open>ValueError\<close> beyond the interpreter's
  limit of 4300 digits.
\<close>

fun digits_of_nat :: "nat \<Rightarrow> string" where
  "digits_of_nat n =
     (if n < 10 then [char_of (48 + n)]
      else digits_of_nat (n div 10) @ [char_of (48 + n mod 10)])"

declare digits_of_nat.simps [simp del]

definition py_str_int :: "int \<Rightarrow> exn + string" where
  "py_str_int i =
     (let ds = digits_of_nat (nat \<bar>i\<bar>) in
      if 4300 < length ds then Inl ValueError
      else Inr (if i < 0 then CHR ''-'' # ds else ds))"

text \<open>
  \<^verbatim>\<open>
    def _build_search_url(self, company, page, results_per_page):
        offset = PaginationHandler.calculate_offset(page, results_per_page)
        query = self.config.query_template.format(company=company)
        params = {"q": query, "first": str(offset + 1), "count": str(results_per_page)}
        url = f"{self.config.search_engine}?{urlencode(params)}"
        return url
  \<close>
\<close>

definition build_search_url ::
  "('f, 'h) world \<Rightarrow> 'f search_config \<Rightarrow> string \<Rightarrow> int \<Rightarrow> int \<Rightarrow> exn + string" where
  "build_search_url W cfg company page results_per_page =
     (let offset = calculate_offset page results_per_page in
      case (case query_template cfg of
              PStr t \<Rightarrow> str_format W t company
            | _ \<Rightarrow> Inl AttributeError) of
        Inl e \<Rightarrow> Inl e
      | Inr query' \<Rightarrow>
          (case py_str_int (offset + 1) of
             Inl e \<Rightarrow> Inl e
           | Inr first \<Rightarrow>
               (case py_str_int results_per_page of
                  Inl e \<Rightarrow> Inl e
                | Inr count \<Rightarrow>
                    Inr ((case search_engine cfg of PStr s \<Rightarrow> s | v \<Rightarrow> to_str W v) @ ''?'' @
                         urlencode W [(''q'', query'), (''first'', first), (''count'', count)]))))"

subsection \<open>The per-name loop\<close>

text \<open>
  \<^verbatim>\<open>
            new_items = []
            for item in page_results:
                link = item.get("link")
                if not link: continue
                if link in seen_links: continue
                seen_links.add(link)
                new_items.append(item)
  \<close>
\<close>

fun dedupe :: "result_record list \<Rightarrow> string set \<Rightarrow> result_record list \<Rightarrow> string set \<times> result_record list" where
  "dedupe [] seen_links new_items = (seen_links, new_items)"
| "dedupe (item # page_results) seen_links new_items =
     (if link item = [] then dedupe page_results seen_links new_items
      else if link item \<in> seen_links then dedupe page_results seen_links new_items
      else dedupe page_results (insert (link item) seen_links) (new_items @ [item]))"

text \<open>
  The body of \<open>search_company\<close>'s loop over the pages, with the accumulation
  \<open>all_results\<close>, the set \<open>seen_links\<close> and the trace. A \<open>break\<close> ends the recursion with
  the accumulation; an exception that is not caught ends it with the exception.
  \<^verbatim>\<open>
        for page in PaginationHandler.iter_pages(start_page, max_pages):
            url = self._build_search_url(company=company, page=page,
                                         results_per_page=results_per_company)
            try:
                html = self._fetch_page(url)
            except requests.RequestException as exc:
                break
            page_results = ResultParser.extract_linkedin_results(html=html, search_query=company)
            (the de-duplication above)
            all_results.extend(new_items)
            if len(all_results) >= results_per_company:
                break
            if not new_items:
                break
            time.sleep(self.config.request_delay_seconds)
  \<close>
\<close>

fun search_pages ::
  "urllib \<Rightarrow> ('f, 'h) world \<Rightarrow> 'f search_config \<Rightarrow> string \<Rightarrow> int \<Rightarrow> int list \<Rightarrow>
   result_record list \<Rightarrow> string set \<Rightarrow> ('f, 'h) event list \<Rightarrow>
   (exn + result_record list) \<times> ('f, 'h) event list" where
  "search_pages L W cfg company results_per_company [] all_results seen_links trace =
     (Inr all_results, trace)"
| "search_pages L W cfg company results_per_company (page # pages) all_results seen_links trace =
     (case build_search_url W cfg company page results_per_company of
        Inl e \<Rightarrow> (Inl e, trace)
      | Inr url \<Rightarrow>
          (let response = session_get W cfg trace url;
               trace = trace @ [Fetch url response]
           in case response of
                Inl e \<Rightarrow> (if e = RequestException then (Inr all_results, trace) else (Inl e, trace))
              | Inr html \<Rightarrow>
                  (case extract_linkedin_results L (find_all_a W html) company of
                     Inl e \<Rightarrow> (Inl e, trace)
                   | Inr page_results \<Rightarrow>
                       (let (seen_links, new_items) = dedupe page_results seen_links [];
                            all_results = all_results @ new_items
                        in if results_per_company \<le> int (length all_results) then (Inr all_results, trace)
                           else if new_items = [] then (Inr all_results, trace)
                           else (let trace = trace @ [Sleep (request_delay_seconds cfg)]
                                 in case time_sleep W (request_delay_seconds cfg) of
                                      Some e \<Rightarrow> (Inl e, trace)
                                    | None \<Rightarrow>
                                        search_pages L W cfg company results_per_company pages
                                          all_results seen_links trace)))))"

text \<open>
  \<^verbatim>\<open>
    def search_company(self, company, results_per_company, start_page, max_pages):
        all_results = []
        seen_links = set()
        (the loop above)
        limited_results = all_results[:results_per_company]
        return limited_results
  \<close>
\<close>

definition search_company ::
  "urllib \<Rightarrow> ('f, 'h) world \<Rightarrow> 'f search_config \<Rightarrow> string \<Rightarrow> int \<Rightarrow> int \<Rightarrow> int \<Rightarrow>
   ('f, 'h) event list \<Rightarrow> (exn + result_record list) \<times> ('f, 'h) event list" where
  "search_company L W cfg company results_per_company start_page max_pages trace =
     (case search_pages L W cfg company results_per_company (iter_pages start_page max_pages)
             [] {} trace of
        (Inl e, trace) \<Rightarrow> (Inl e, trace)
      | (Inr all_results, trace) \<Rightarrow> (Inr (py_slice_to all_results results_per_company), trace))"

subsection \<open>The loop over the names\<close>

text \<open>\<open>str.strip()\<close>: the white space of Python among the characters below 256.\<close>

definition py_isspace :: "char \<Rightarrow> bool" where
  "py_isspace c =
     (let n = (of_char c :: nat) in
      (9 \<le> n \<and> n \<le> 13) \<or> (28 \<le> n \<and> n \<le> 32) \<or> n = 133 \<or> n = 160)"

definition py_strip :: "string \<Rightarrow> string" where
  "py_strip s = rev (dropWhile py_isspace (rev (dropWhile py_isspace s)))"

text \<open>
  \<^verbatim>\<open>
    def search_for_companies(self, companies, results_per_company, start_page, max_pages):
        combined_results = []
        for company in companies:
            company = company.strip()
            if not company: continue
            try:
                company_results = self.search_company(company=company, ...)
                combined_results.extend(company_results)
            except Exception as exc:
                logger.exception(...)
        return combined_results
  \<close>
\<close>

fun search_companies_loop ::
  "urllib \<Rightarrow> ('f, 'h) world \<Rightarrow> 'f search_config \<Rightarrow> string list \<Rightarrow> int \<Rightarrow> int \<Rightarrow> int \<Rightarrow>
   result_record list \<Rightarrow> ('f, 'h) event list \<Rightarrow> result_record list \<times> ('f, 'h) event list" where
  "search_companies_loop L W cfg [] results_per_company start_page max_pages combined_results trace =
     (combined_results, trace)"
| "search_companies_loop L W cfg (company # companies) results_per_company start_page max_pages
       combined_results trace =
     (let company = py_strip company in
      if company = [] then
        search_companies_loop L W cfg companies results_per_company start_page max_pages
          combined_results trace
      else
        (case search_company L W cfg company results_per_company start_page max_pages trace of
           (Inr company_results, trace) \<Rightarrow>
             search_companies_loop L W cfg companies results_per_company start_page max_pages
               (combined_results @ company_results) trace
         | (Inl e, trace) \<Rightarrow>
             search_companies_loop L W cfg companies results_per_company start_page max_pages
               combined_results trace))"

definition search_for_companies ::
  "urllib \<Rightarrow> ('f, 'h) world \<Rightarrow> 'f search_config \<Rightarrow> string list \<Rightarrow> int \<Rightarrow> int \<Rightarrow> int \<Rightarrow>
   ('f, 'h) event list \<Rightarrow> result_record list \<times> ('f, 'h) event list" where
  "search_for_companies L W cfg companies results_per_company start_page max_pages trace =
     search_companies_loop L W cfg companies results_per_company start_page max_pages [] trace"

section \<open>Specification-side definitions\<close>

text \<open>
  The first-seen order of the specification, in its own words: of the records with a
  non-empty link, keep for each link the first record that carries it, in the order of the
  list. This is what the specification asks of the accumulation; it is compared below with
  what \<open>dedupe\<close> and the set \<open>seen_links\<close> compute.
\<close>

fun first_seen :: "result_record list \<Rightarrow> result_record list" where
  "first_seen [] = []"
| "first_seen (r # rs) =
     (if link r = [] then first_seen rs
      else r # first_seen (filter (\<lambda>x. link x \<noteq> link r) rs))"

text \<open>
  The record lists of the pages that a stretch of the trace fetched for a name: one list
  for every answered request, in the order of the requests.
\<close>

fun fetched_pages ::
  "urllib \<Rightarrow> ('f, 'h) world \<Rightarrow> string \<Rightarrow> ('f, 'h) event list \<Rightarrow> result_record list list" where
  "fetched_pages L W company [] = []"
| "fetched_pages L W company (Fetch url (Inr html) # evs) =
     (case extract_linkedin_results L (find_all_a W html) company of
        Inr page_results \<Rightarrow> page_results # fetched_pages L W company evs
      | Inl e \<Rightarrow> fetched_pages L W company evs)"
| "fetched_pages L W company (ev # evs) = fetched_pages L W company evs"

fun is_fetch :: "('f, 'h) event \<Rightarrow> bool" where
  "is_fetch (Fetch url response) = True"
| "is_fetch (Sleep d) = False"

section \<open>A concrete library and a concrete world for the examples\<close>

text \<open>
  The examples below run the model on concrete inputs. Their URLs are ASCII and have no
  bracketed host, so the three library parameters are never consulted; \<open>plain_urllib\<close>
  fixes them to the most restrictive values.
\<close>

definition plain_urllib :: urllib where
  "plain_urllib = \<lparr>bracketed_host_ok = (\<lambda>h. False), nfkc_netloc_ok = (\<lambda>n. False),
                    decode_utf8 = (\<lambda>bs. bs)\<rparr>"

text \<open>
  In the example world floating-point numbers are reals, a page body is the list of its
  anchors, and the answer to a request depends on how many requests were made before it:
  request number \<open>n\<close> (from 0) gets \<open>responses n\<close>. \<open>quote_plus\<close> is the library's quoting
  of query values; the template is the default one.
\<close>

definition hex_digit :: "nat \<Rightarrow> char" where
  "hex_digit k = ''0123456789ABCDEF'' ! (k mod 16)"

definition quote_plus_char :: "char \<Rightarrow> string" where
  "quote_plus_char c =
     (let n = (of_char c :: nat) in
      if (48 \<le> n \<and> n \<le> 57) \<or> (65 \<le> n \<and> n \<le> 90) \<or> (97 \<le> n \<and> n \<le> 122) \<or>
         c \<in> set ''_.-~'' then [c]
      else if c = CHR '' '' then ''+''
      else if n < 128 then [CHR ''%'', hex_digit (n div 16), hex_digit n]
      else [CHR ''%'', hex_digit 12, hex_digit (n div 64), CHR ''%'', hex_digit (8 + n mod 64 div 16), hex_digit n])"

fun urlencode_pairs :: "(string \<times> string) list \<Rightarrow> string" where
  "urlencode_pairs [] = []"
| "urlencode_pairs [(k, v)] = concat (map quote_plus_char k) @ ''='' @ concat (map quote_plus_char v)"
| "urlencode_pairs ((k, v) # ps) =
     concat (map quote_plus_char k) @ ''='' @ concat (map quote_plus_char v) @ ''&'' @ urlencode_pairs ps"

definition example_world :: "(nat \<Rightarrow> exn + anchor list) \<Rightarrow> (real, anchor list) world" where
  "example_world responses =
     \<lparr>str_format = (\<lambda>t company.
          if t = ''site:linkedin.com/company {company}''
          then Inr (''site:linkedin.com/company '' @ company) else Inl OtherException),
      to_str = (\<lambda>v. []),
      urlencode = urlencode_pairs,
      session_get = (\<lambda>cfg trace url. responses (length (filter is_fetch trace))),
      find_all_a = (\<lambda>h. h),
      time_sleep = (\<lambda>d. None)\<rparr>"

definition example_config :: "real search_config" where
  "example_config =
     \<lparr>search_engine = default_search_engine, query_template = default_query_template,
      request_timeout_seconds = 10, request_delay_seconds = 1, user_agent = default_user_agent\<rparr>"

definition acme_anchor :: anchor where
  "acme_anchor = \<lparr>href = Some ''https://www.linkedin.com/company/acme/'', anchor_text = ''Acme Corp''\<rparr>"

definition globex_anchor :: anchor where
  "globex_anchor = \<lparr>href = Some ''/url?q=https://www.linkedin.com/company/globex&sa=U'', anchor_text = []\<rparr>"

definition initech_anchor :: anchor where
  "initech_anchor = \<lparr>href = Some ''https://www.linkedin.com/company/initech?trk=x'', anchor_text = ''Initech''\<rparr>"

definition other_anchor :: anchor where
  "other_anchor = \<lparr>href = Some ''https://www.example.com/about'', anchor_text = ''About''\<rparr>"

definition acme_record :: "string \<Rightarrow> result_record" where
  "acme_record q = \<lparr>title = ''Acme Corp'', link = ''https://www.linkedin.com/company/acme'', searchQuery = q\<rparr>"

definition globex_record :: "string \<Rightarrow> result_record" where
  "globex_record q = \<lparr>title = q, link = ''https://www.linkedin.com/company/globex'', searchQuery = q\<rparr>"

definition initech_record :: "string \<Rightarrow> result_record" where
  "initech_record q = \<lparr>title = ''Initech'', link = ''https://www.linkedin.com/company/initech'', searchQuery = q\<rparr>"


section \<open>Pagination policy: properties\<close>

text \<open>
  Claim C8. For all \<open>page \<ge> 1\<close> and \<open>per_page \<ge> 1\<close> the offset is
  \<open>(page - 1) * per_page\<close>; an argument below 1 is replaced by 1 and the same
  computation is carried out. The function is total: it has no failing branch.
\<close>

theorem calculate_offset_clamps:
  "(1 \<le> page \<and> 1 \<le> per_page \<longrightarrow> calculate_offset page per_page = (page - 1) * per_page) \<and>
   calculate_offset page per_page =
     calculate_offset (if page < 1 then 1 else page) (if per_page < 1 then 1 else per_page)"
  by (simp add: calculate_offset_def)

theorem calculate_offset_clamps_witness:
  "(1::int) \<le> 3 \<and> (1::int) \<le> 10 \<and> calculate_offset 3 10 = 20 \<and>
   calculate_offset 0 (- 5) = calculate_offset 1 1 \<and> calculate_offset 0 (- 5) = 0 \<and>
   calculate_offset (- 2) 7 = calculate_offset 1 7 \<and> calculate_offset 4 0 = 3"
  using calculate_offset_clamps [of 3 10] calculate_offset_clamps [of 0 "- 5"]
    calculate_offset_clamps [of "- 2" 7] calculate_offset_clamps [of 4 0]
  by (simp add: calculate_offset_def)

section \<open>First-seen order and the de-duplication loop\<close>

lemma filter_link_commute:
  "filter (\<lambda>x. link x \<noteq> l) (filter P xs) = filter P (filter (\<lambda>x. link x \<noteq> l) xs)"
  by (induction xs) auto

lemma first_seen_cong:
  "(\<And>x. x \<in> set xs \<Longrightarrow> link x \<noteq> [] \<Longrightarrow> P x = Q x) \<Longrightarrow>
   first_seen (filter P xs) = first_seen (filter Q xs)"
proof (induction "length xs" arbitrary: xs rule: less_induct)
  case less
  show ?case
  proof (cases xs)
    case Nil
    then show ?thesis by simp
  next
    case (Cons r rs)
    have agree: "\<And>x. x \<in> set rs \<Longrightarrow> link x \<noteq> [] \<Longrightarrow> P x = Q x"
      using less.prems Cons by simp
    have tail: "first_seen (filter P rs) = first_seen (filter Q rs)"
      using less.hyps[of rs] agree Cons by simp
    show ?thesis
    proof (cases "link r = []")
      case True
      then show ?thesis using Cons tail by simp
    next
      case False
      then have pq: "P r = Q r" using less.prems Cons by simp
      let ?rs = "filter (\<lambda>x. link x \<noteq> link r) rs"
      have "length ?rs < length xs" using Cons by (simp add: le_imp_less_Suc)
      moreover have "\<And>x. x \<in> set ?rs \<Longrightarrow> link x \<noteq> [] \<Longrightarrow> P x = Q x"
        using agree by simp
      ultimately have "first_seen (filter P ?rs) = first_seen (filter Q ?rs)"
        using less.hyps[of ?rs] by blast
      then show ?thesis
        using Cons tail pq False by (simp add: filter_link_commute del: filter_filter)
    qed
  qed
qed

lemma first_seen_links: "link ` set (first_seen xs) = link ` set xs - {[]}"
  apply (induction xs rule: first_seen.induct)
   apply auto
  done

lemma first_seen_distinct: "distinct (map link (first_seen xs))"
  apply (induction xs rule: first_seen.induct)
   apply (auto simp: first_seen_links)
  done

lemma first_seen_append:
  "first_seen (xs @ ys) = first_seen xs @ first_seen (filter (\<lambda>y. link y \<notin> link ` set xs) ys)"
proof (induction xs arbitrary: ys rule: first_seen.induct)
  case 1
  then show ?case by simp
next
  case (2 r rs)
  show ?case
  proof (cases "link r = []")
    case True
    have "first_seen (filter (\<lambda>y. link y \<notin> link ` set (r # rs)) ys) =
          first_seen (filter (\<lambda>y. link y \<notin> link ` set rs) ys)"
      by (rule first_seen_cong) (use True in auto)
    with True 2 show ?thesis by simp
  next
    case False
    have "filter (\<lambda>y. link y \<notin> link ` set (filter (\<lambda>x. link x \<noteq> link r) rs)) (filter (\<lambda>x. link x \<noteq> link r) ys)
        = filter (\<lambda>y. link y \<notin> link ` set (r # rs)) ys"
      by (induction ys) auto
    with False 2 show ?thesis by simp
  qed
qed

lemma dedupe_eq:
  "dedupe items seen new =
     (seen \<union> link ` set (first_seen (filter (\<lambda>x. link x \<notin> seen) items)),
      new @ first_seen (filter (\<lambda>x. link x \<notin> seen) items))"
proof (induction items arbitrary: seen new)
  case Nil
  then show ?case by simp
next
  case (Cons r rs)
  show ?case
  proof (cases "link r = [] \<or> link r \<in> seen")
    case True
    then show ?thesis using Cons[of seen new] by auto
  next
    case False
    have eq: "filter (\<lambda>x. link x \<noteq> link r) (filter (\<lambda>x. link x \<notin> seen) rs) =
          filter (\<lambda>x. link x \<notin> insert (link r) seen) rs"
      by (induction rs) auto
    have "dedupe (r # rs) seen new = dedupe rs (insert (link r) seen) (new @ [r])"
      using False by simp
    also have "\<dots> = (insert (link r) seen \<union>
          link ` set (first_seen (filter (\<lambda>x. link x \<notin> insert (link r) seen) rs)),
        (new @ [r]) @ first_seen (filter (\<lambda>x. link x \<notin> insert (link r) seen) rs))"
      by (rule Cons)
    also have "\<dots> = (seen \<union> link ` set (first_seen (filter (\<lambda>x. link x \<notin> seen) (r # rs))),
        new @ first_seen (filter (\<lambda>x. link x \<notin> seen) (r # rs)))"
      using False by (simp add: eq del: filter_filter)
    finally show ?thesis .
  qed
qed


lemma first_seen_filter_append:
  "first_seen (filter (\<lambda>x. link x \<notin> S) (xs @ ys)) =
     first_seen (filter (\<lambda>x. link x \<notin> S) xs) @
     first_seen (filter (\<lambda>x. link x \<notin> S \<union> link ` set (first_seen (filter (\<lambda>x. link x \<notin> S) xs))) ys)"
proof -
  let ?xs = "filter (\<lambda>x. link x \<notin> S) xs"
  have "first_seen (filter (\<lambda>y. link y \<notin> link ` set ?xs) (filter (\<lambda>x. link x \<notin> S) ys)) =
        first_seen (filter (\<lambda>y. link y \<notin> link ` set ?xs \<and> link y \<notin> S) ys)"
    by (simp add: conj_commute)
  also have "\<dots> = first_seen (filter (\<lambda>x. link x \<notin> S \<union> link ` set (first_seen ?xs)) ys)"
    by (rule first_seen_cong) (auto simp: first_seen_links)
  finally show ?thesis
    by (simp only: filter_append first_seen_append)
qed

lemma search_pages_first_seen:
  "search_pages L W cfg company rpc pages all seen trace = (Inr rs, trace') \<Longrightarrow>
   \<exists>evs. trace' = trace @ evs \<and>
     rs = all @ first_seen (filter (\<lambda>x. link x \<notin> seen) (concat (fetched_pages L W company evs)))"
proof (induction pages arbitrary: all seen trace)
  case Nil
  then show ?case by simp
next
  case (Cons page pages)
  from Cons.prems obtain url where url: "build_search_url W cfg company page rpc = Inr url"
    by (auto split: sum.splits)
  show ?case
  proof (cases "session_get W cfg trace url")
    case (Inl e)
    with Cons.prems url have "rs = all" "trace' = trace @ [Fetch url (Inl e)]"
      by (auto simp: Let_def split: if_splits)
    then show ?thesis by simp
  next
    case (Inr html)
    with Cons.prems url obtain page_results
      where pr: "extract_linkedin_results L (find_all_a W html) company = Inr page_results"
      by (auto simp: Let_def split: sum.splits)
    let ?F = "first_seen (filter (\<lambda>x. link x \<notin> seen) page_results)"
    let ?seen = "seen \<union> link ` set ?F"
    have dd: "dedupe page_results seen [] = (?seen, ?F)"
      by (simp add: dedupe_eq)
    show ?thesis
    proof (cases "rpc \<le> int (length (all @ ?F)) \<or> ?F = []")
      case True
      with Cons.prems url Inr pr dd
      have "rs = all @ ?F" "trace' = trace @ [Fetch url (Inr html)]"
        by (auto simp: Let_def split: if_splits)
      then show ?thesis using pr by simp
    next
      case False
      with Cons.prems url Inr pr dd
      have rec: "search_pages L W cfg company rpc pages (all @ ?F) ?seen
                  (trace @ [Fetch url (Inr html), Sleep (request_delay_seconds cfg)]) = (Inr rs, trace')"
        by (auto simp: Let_def split: if_splits option.splits)
      from Cons.IH[OF rec] obtain evs where
        evs: "trace' = (trace @ [Fetch url (Inr html), Sleep (request_delay_seconds cfg)]) @ evs"
        and rs: "rs = (all @ ?F) @ first_seen (filter (\<lambda>x. link x \<notin> ?seen)
                  (concat (fetched_pages L W company evs)))"
        by blast
      let ?evs = "Fetch url (Inr html) # Sleep (request_delay_seconds cfg) # evs"
      have "trace' = trace @ ?evs" using evs by simp
      moreover have "rs = all @ first_seen (filter (\<lambda>x. link x \<notin> seen)
                  (concat (fetched_pages L W company ?evs)))"
        using rs pr by (simp add: first_seen_filter_append del: filter_append)
      ultimately show ?thesis by blast
    qed
  qed
qed

lemma search_company_first_seen:
  assumes "search_company L W cfg company rpc sp mp trace = (Inr rs, trace')"
  shows "\<exists>evs. trace' = trace @ evs \<and>
           rs = py_slice_to (first_seen (concat (fetched_pages L W company evs))) rpc"
proof -
  from assms obtain all_results where
    loop: "search_pages L W cfg company rpc (iter_pages sp mp) [] {} trace = (Inr all_results, trace')"
    and rs: "rs = py_slice_to all_results rpc"
    by (auto simp: search_company_def split: prod.splits sum.splits)
  from search_pages_first_seen[OF loop] obtain evs where
    "trace' = trace @ evs"
    "all_results = first_seen (concat (fetched_pages L W company evs))"
    by auto
  with rs show ?thesis by blast
qed

lemma py_slice_to_prefix: "prefix (py_slice_to xs n) xs"
  by (simp add: py_slice_to_def take_is_prefix)

lemma py_slice_to_nonneg: "0 \<le> n \<Longrightarrow> py_slice_to xs n = take (nat n) xs"
  by (simp add: py_slice_to_def py_index_def min_def)

section \<open>Evaluating the model on concrete inputs\<close>

lemmas str_eval = py_find_def py_find_from_def py_rfind_def py_index_def py_slice_to_def
  py_slice_from_def py_slice_def split_once_def partition_str_def rstrip_char_def
  replace_char_def is_ascii_def is_ascii_alpha_def ascii_lower_def Let_def suffix_to_prefix

lemmas url_eval = uses_netloc_def uses_params_def scheme_chars_def
  whatwg_c0_control_or_space_def unsafe_url_bytes_to_remove_def splitnetloc_def
  splitparams_def checknetloc_def urlsplit_rest_def urlsplit_def urlparse_def urlunsplit_def
  urlunparse_def hexdig_val_def unquote_item_def unquote_to_bytes_def decode_bytes_def
  unquote_def unquote_plus_def parse_qsl_def parse_qs_def normalize_parsed_def py_or_def
  candidate_list_def normalize_linkedin_url_def sublist_code

lemma normalize_acme:
  "normalize_linkedin_url L ''https://www.linkedin.com/company/acme/'' =
     Inr (Some ''https://www.linkedin.com/company/acme'')"
  by (simp add: str_eval url_eval)

lemma normalize_globex:
  "normalize_linkedin_url L ''/url?q=https://www.linkedin.com/company/globex&sa=U'' =
     Inr (Some ''https://www.linkedin.com/company/globex'')"
  by (simp add: str_eval url_eval)

lemma normalize_initech:
  "normalize_linkedin_url L ''https://www.linkedin.com/company/initech?trk=x'' =
     Inr (Some ''https://www.linkedin.com/company/initech'')"
  by (simp add: str_eval url_eval)

lemma normalize_other:
  "normalize_linkedin_url L ''https://www.example.com/about'' = Inr None"
  by (simp add: str_eval url_eval)

lemmas anchor_eval = acme_anchor_def globex_anchor_def initech_anchor_def other_anchor_def
  acme_record_def globex_record_def initech_record_def
  normalize_acme normalize_globex normalize_initech normalize_other
  extract_linkedin_results_def

lemmas search_eval = search_company_def search_for_companies_def iter_pages_def upto.simps
  build_search_url_def calculate_offset_def py_str_int_def digits_of_nat.simps
  example_world_def example_config_def default_search_engine_def default_query_template_def
  quote_plus_char_def hex_digit_def py_index_def py_slice_to_def Let_def
  py_strip_def py_isspace_def

section \<open>The per-name loop: properties\<close>

text \<open>
  Claim C1. Whenever \<open>search_company\<close> returns a list for a name, the links of its records
  are pairwise distinct, and the records are in first-seen order: the list is an initial
  part of the first-seen selection from the records of the pages fetched for the name, taken
  page after page, each page in document order.
\<close>

theorem search_company_distinct_first_seen:
  assumes "search_company L W cfg company rpc sp mp trace = (Inr rs, trace')"
  shows "distinct (map link rs) \<and>
         (\<exists>evs. trace' = trace @ evs \<and>
                prefix rs (first_seen (concat (fetched_pages L W company evs))))"
proof -
  from search_company_first_seen[OF assms] obtain evs where
    tr: "trace' = trace @ evs"
    and rs: "rs = py_slice_to (first_seen (concat (fetched_pages L W company evs))) rpc"
    by blast
  have "distinct (map link (first_seen (concat (fetched_pages L W company evs))))"
    by (rule first_seen_distinct)
  then have "distinct (map link rs)"
    unfolding rs py_slice_to_def by (simp add: take_map [symmetric] del: take_map)
  moreover have "prefix rs (first_seen (concat (fetched_pages L W company evs)))"
    unfolding rs by (rule py_slice_to_prefix)
  ultimately show ?thesis using tr by blast
qed

theorem search_company_distinct_first_seen_witness:
  "fst (search_company plain_urllib
          (example_world (\<lambda>n. if n = 0 then Inr [acme_anchor, other_anchor, globex_anchor, acme_anchor]
                               else Inr [globex_anchor, initech_anchor]))
          example_config ''Acme'' 5 1 2 []) =
     Inr [acme_record ''Acme'', globex_record ''Acme'', initech_record ''Acme''] \<and>
   distinct (map link [acme_record ''Acme'', globex_record ''Acme'', initech_record ''Acme''])"
proof -
  let ?r = "search_company plain_urllib
          (example_world (\<lambda>n. if n = 0 then Inr [acme_anchor, other_anchor, globex_anchor, acme_anchor]
                               else Inr [globex_anchor, initech_anchor]))
          example_config ''Acme'' 5 1 2 []"
  have v: "fst ?r = Inr [acme_record ''Acme'', globex_record ''Acme'', initech_record ''Acme'']"
    by (simp add: search_eval anchor_eval)
  then have "?r = (Inr [acme_record ''Acme'', globex_record ''Acme'', initech_record ''Acme''], snd ?r)"
    by (metis prod.collapse)
  from search_company_distinct_first_seen[OF this]
  have "distinct (map link [acme_record ''Acme'', globex_record ''Acme'', initech_record ''Acme''])"
    by blast
  with v show ?thesis by blast
qed

text \<open>
  Claim C2, as amended. For every requested \<open>results_per_company \<ge> 0\<close>, the list that
  \<open>search_company\<close> returns has at most that many records: it is the accumulation cut to
  its first \<open>results_per_company\<close> records.
\<close>

theorem search_company_cap:
  assumes "0 \<le> rpc"
    and "search_company L W cfg company rpc sp mp trace = (Inr rs, trace')"
  shows "int (length rs) \<le> rpc \<and>
         (\<exists>evs. trace' = trace @ evs \<and>
                rs = take (nat rpc) (first_seen (concat (fetched_pages L W company evs))))"
proof -
  from search_company_first_seen[OF assms(2)] obtain evs where
    tr: "trace' = trace @ evs"
    and rs: "rs = py_slice_to (first_seen (concat (fetched_pages L W company evs))) rpc"
    by blast
  from rs assms(1) have rs': "rs = take (nat rpc) (first_seen (concat (fetched_pages L W company evs)))"
    by (simp add: py_slice_to_nonneg)
  then have "int (length rs) \<le> rpc" using assms(1) by simp
  with tr rs' show ?thesis by blast
qed

theorem search_company_cap_witness:
  "(0::int) \<le> 2 \<and>
   fst (search_company plain_urllib
          (example_world (\<lambda>n. Inr [acme_anchor, globex_anchor, initech_anchor]))
          example_config ''Acme'' 2 1 3 []) =
     Inr [acme_record ''Acme'', globex_record ''Acme''] \<and>
   int (length [acme_record ''Acme'', globex_record ''Acme'']) \<le> 2"
proof -
  let ?r = "search_company plain_urllib
          (example_world (\<lambda>n. Inr [acme_anchor, globex_anchor, initech_anchor]))
          example_config ''Acme'' 2 1 3 []"
  have v: "fst ?r = Inr [acme_record ''Acme'', globex_record ''Acme'']"
    by (simp add: search_eval anchor_eval)
  then have "?r = (Inr [acme_record ''Acme'', globex_record ''Acme''], snd ?r)"
    by (metis prod.collapse)
  from search_company_cap[OF _ this]
  have "int (length [acme_record ''Acme'', globex_record ''Acme'']) \<le> 2"
    by simp
  with v show ?thesis by simp
qed

text \<open>
  The claim as stated, for every requested value, fails for a negative one: with
  \<open>results_per_company = -1\<close> the loop stops after the first page and the slice
  \<open>all_results[:-1]\<close> drops the last record only, so a page with three links yields two
  records, more than \<open>-1\<close>.
\<close>

theorem search_company_cap_counterexample:
  "fst (search_company plain_urllib
          (example_world (\<lambda>n. Inr [acme_anchor, globex_anchor, initech_anchor]))
          example_config ''Acme'' (- 1) 1 3 []) =
     Inr [acme_record ''Acme'', globex_record ''Acme''] \<and>
   \<not> int (length [acme_record ''Acme'', globex_record ''Acme'']) \<le> - 1"
  by (simp add: search_eval anchor_eval)

lemma digit_chars:
  "char_of (48::nat) = CHR ''0''" "char_of (49::nat) = CHR ''1''" "char_of (50::nat) = CHR ''2''"
  "char_of (51::nat) = CHR ''3''" "char_of (52::nat) = CHR ''4''" "char_of (53::nat) = CHR ''5''"
  "char_of (54::nat) = CHR ''6''" "char_of (55::nat) = CHR ''7''" "char_of (56::nat) = CHR ''8''"
  "char_of (57::nat) = CHR ''9''"
  by code_simp+

lemma iter_pages_two:
  "2 \<le> mp \<Longrightarrow> \<exists>rest. iter_pages sp mp =
     (if sp < 1 then 1 else sp) # ((if sp < 1 then 1 else sp) + 1) # rest"
proof -
  assume mp: "2 \<le> mp"
  let ?s = "if sp < 1 then 1 else sp"
  have "iter_pages sp mp = [?s .. ?s + mp - 1]"
    using mp by (simp add: iter_pages_def Let_def)
  also have "\<dots> = ?s # [?s + 1 .. ?s + mp - 1]"
    using mp by (subst upto.simps) simp
  also have "[?s + 1 .. ?s + mp - 1] = (?s + 1) # [?s + 1 + 1 .. ?s + mp - 1]"
    using mp by (subst upto.simps) simp
  finally show ?thesis by blast
qed

lemma iter_pages_first:
  "\<exists>rest. iter_pages sp mp = (if sp < 1 then 1 else sp) # rest"
proof -
  let ?s = "if sp < 1 then 1 else sp"
  let ?m = "if mp < 1 then 1 else mp"
  have "iter_pages sp mp = [?s .. ?s + ?m - 1]"
    by (simp add: iter_pages_def Let_def)
  also have "\<dots> = ?s # [?s + 1 .. ?s + ?m - 1]"
    by (subst upto.simps) simp
  finally show ?thesis by blast
qed

text \<open>
  Claim C3. After a page that was fetched and parsed, the loop first tests the cap (stop
  when the accumulation has reached \<open>results_per_company\<close>), then the new records of the
  page (stop when there is none), and only then pauses and goes on with the pages that
  remain. In particular (Scenario D) two pages that yield the same single link end the
  loop after the second request, with one record.
\<close>

theorem stopping_conditions_priority:
  "(build_search_url W cfg company page rpc = Inr url \<and>
    session_get W cfg trace url = Inr html \<and>
    extract_linkedin_results L (find_all_a W html) company = Inr page_results \<and>
    dedupe page_results seen [] = (seen', new_items) \<longrightarrow>
    search_pages L W cfg company rpc (page # pages) all_results seen trace =
      (if rpc \<le> int (length (all_results @ new_items))
       then (Inr (all_results @ new_items), trace @ [Fetch url (Inr html)])
       else if new_items = []
       then (Inr (all_results @ new_items), trace @ [Fetch url (Inr html)])
       else (case time_sleep W (request_delay_seconds cfg) of
               Some e \<Rightarrow> (Inl e, trace @ [Fetch url (Inr html), Sleep (request_delay_seconds cfg)])
             | None \<Rightarrow>
                 search_pages L W cfg company rpc pages (all_results @ new_items) seen'
                   (trace @ [Fetch url (Inr html), Sleep (request_delay_seconds cfg)])))) \<and>
   (2 \<le> rpc \<and> 2 \<le> mp \<and>
    build_search_url W cfg company (if sp < 1 then 1 else sp) rpc = Inr url1 \<and>
    build_search_url W cfg company ((if sp < 1 then 1 else sp) + 1) rpc = Inr url2 \<and>
    session_get W cfg trace url1 = Inr html1 \<and>
    session_get W cfg (trace @ [Fetch url1 (Inr html1), Sleep (request_delay_seconds cfg)]) url2 = Inr html2 \<and>
    extract_linkedin_results L (find_all_a W html1) company = Inr [r1] \<and>
    extract_linkedin_results L (find_all_a W html2) company = Inr [r2] \<and>
    link r2 = link r1 \<and> link r1 \<noteq> [] \<and>
    time_sleep W (request_delay_seconds cfg) = None \<longrightarrow>
    search_company L W cfg company rpc sp mp trace =
      (Inr [r1], trace @ [Fetch url1 (Inr html1), Sleep (request_delay_seconds cfg),
                          Fetch url2 (Inr html2)]))"
proof (intro conjI impI)
  assume "build_search_url W cfg company page rpc = Inr url \<and>
    session_get W cfg trace url = Inr html \<and>
    extract_linkedin_results L (find_all_a W html) company = Inr page_results \<and>
    dedupe page_results seen [] = (seen', new_items)"
  then show "search_pages L W cfg company rpc (page # pages) all_results seen trace =
      (if rpc \<le> int (length (all_results @ new_items))
       then (Inr (all_results @ new_items), trace @ [Fetch url (Inr html)])
       else if new_items = []
       then (Inr (all_results @ new_items), trace @ [Fetch url (Inr html)])
       else (case time_sleep W (request_delay_seconds cfg) of
               Some e \<Rightarrow> (Inl e, trace @ [Fetch url (Inr html), Sleep (request_delay_seconds cfg)])
             | None \<Rightarrow>
                 search_pages L W cfg company rpc pages (all_results @ new_items) seen'
                   (trace @ [Fetch url (Inr html), Sleep (request_delay_seconds cfg)])))"
    by (simp add: Let_def)
next
  let ?s = "if sp < 1 then 1 else sp"
  let ?d = "request_delay_seconds cfg"
  assume a: "2 \<le> rpc \<and> 2 \<le> mp \<and>
    build_search_url W cfg company ?s rpc = Inr url1 \<and>
    build_search_url W cfg company (?s + 1) rpc = Inr url2 \<and>
    session_get W cfg trace url1 = Inr html1 \<and>
    session_get W cfg (trace @ [Fetch url1 (Inr html1), Sleep ?d]) url2 = Inr html2 \<and>
    extract_linkedin_results L (find_all_a W html1) company = Inr [r1] \<and>
    extract_linkedin_results L (find_all_a W html2) company = Inr [r2] \<and>
    link r2 = link r1 \<and> link r1 \<noteq> [] \<and>
    time_sleep W ?d = None"
  then obtain rest where pages: "iter_pages sp mp = ?s # (?s + 1) # rest"
    using iter_pages_two[of mp sp] by blast
  have second: "search_pages L W cfg company rpc ((?s + 1) # rest) [r1] {link r1}
          (trace @ [Fetch url1 (Inr html1), Sleep ?d]) =
        (Inr [r1], trace @ [Fetch url1 (Inr html1), Sleep ?d, Fetch url2 (Inr html2)])"
    using a by (simp add: Let_def)
  have "search_pages L W cfg company rpc (?s # (?s + 1) # rest) [] {} trace =
        (Inr [r1], trace @ [Fetch url1 (Inr html1), Sleep ?d, Fetch url2 (Inr html2)])"
    using a second by (simp add: Let_def)
  moreover have "py_slice_to [r1] rpc = [r1]"
  proof -
    have "Suc 0 \<le> nat rpc" using a by arith
    then show ?thesis using a by (simp add: py_slice_to_nonneg)
  qed
  ultimately show "search_company L W cfg company rpc sp mp trace =
      (Inr [r1], trace @ [Fetch url1 (Inr html1), Sleep ?d, Fetch url2 (Inr html2)])"
    using pages by (simp add: search_company_def)
qed


theorem stopping_conditions_priority_witness:
  "search_company plain_urllib (example_world (\<lambda>n. Inr [acme_anchor])) example_config
     ''Acme'' 5 1 3 [] =
   (Inr [acme_record ''Acme''],
    [Fetch ''https://www.bing.com/search?q=site%3Alinkedin.com%2Fcompany+Acme&first=1&count=5''
       (Inr [acme_anchor]),
     Sleep 1,
     Fetch ''https://www.bing.com/search?q=site%3Alinkedin.com%2Fcompany+Acme&first=6&count=5''
       (Inr [acme_anchor])])"
proof -
  let ?W = "example_world (\<lambda>n. Inr [acme_anchor])"
  let ?u1 = "''https://www.bing.com/search?q=site%3Alinkedin.com%2Fcompany+Acme&first=1&count=5''"
  let ?u2 = "''https://www.bing.com/search?q=site%3Alinkedin.com%2Fcompany+Acme&first=6&count=5''"
  have h: "(2::int) \<le> 5 \<and> (2::int) \<le> 3 \<and>
    build_search_url ?W example_config ''Acme'' (if (1::int) < 1 then 1 else 1) 5 = Inr ?u1 \<and>
    build_search_url ?W example_config ''Acme'' ((if (1::int) < 1 then 1 else 1) + 1) 5 = Inr ?u2 \<and>
    session_get ?W example_config [] ?u1 = Inr [acme_anchor] \<and>
    session_get ?W example_config
      ([] @ [Fetch ?u1 (Inr [acme_anchor]), Sleep (request_delay_seconds example_config)]) ?u2 =
      Inr [acme_anchor] \<and>
    extract_linkedin_results plain_urllib (find_all_a ?W [acme_anchor]) ''Acme'' = Inr [acme_record ''Acme''] \<and>
    extract_linkedin_results plain_urllib (find_all_a ?W [acme_anchor]) ''Acme'' = Inr [acme_record ''Acme''] \<and>
    link (acme_record ''Acme'') = link (acme_record ''Acme'') \<and> link (acme_record ''Acme'') \<noteq> [] \<and>
    time_sleep ?W (request_delay_seconds example_config) = None"
    by (simp add: search_eval anchor_eval digit_chars)
  from stopping_conditions_priority[THEN conjunct2, THEN mp, OF h]
  show ?thesis by (simp add: example_config_def)
qed

text \<open>
  Claim C4. A request that fails with a transport error ends the loop for the name at
  once: the failed request is the last one for the name, and the loop yields the records
  accumulated so far, which \<open>search_company\<close> then caps. When the failure is on the first
  page the name's list is empty, and the names that follow are processed as if the name
  had not been there (Scenario E).
\<close>

theorem transport_failure_stops_name:
  "(build_search_url W cfg company page rpc = Inr url \<and>
    session_get W cfg trace url = Inl RequestException \<longrightarrow>
    search_pages L W cfg company rpc (page # pages) all_results seen trace =
      (Inr all_results, trace @ [Fetch url (Inl RequestException)])) \<and>
   (search_pages L W cfg company rpc (iter_pages sp mp) [] {} trace = (Inr all_results, trace') \<longrightarrow>
    search_company L W cfg company rpc sp mp trace =
      (Inr (py_slice_to all_results rpc), trace')) \<and>
   (build_search_url W cfg company (if sp < 1 then 1 else sp) rpc = Inr url \<and>
    session_get W cfg trace url = Inl RequestException \<longrightarrow>
    search_company L W cfg company rpc sp mp trace =
      (Inr [], trace @ [Fetch url (Inl RequestException)]) \<and>
    (py_strip name = company \<and> company \<noteq> [] \<longrightarrow>
     search_companies_loop L W cfg (name # names) rpc sp mp combined trace =
       search_companies_loop L W cfg names rpc sp mp combined
         (trace @ [Fetch url (Inl RequestException)])))"
proof (intro conjI impI)
  assume "build_search_url W cfg company page rpc = Inr url \<and>
    session_get W cfg trace url = Inl RequestException"
  then show "search_pages L W cfg company rpc (page # pages) all_results seen trace =
      (Inr all_results, trace @ [Fetch url (Inl RequestException)])"
    by (simp add: Let_def)
next
  assume "search_pages L W cfg company rpc (iter_pages sp mp) [] {} trace = (Inr all_results, trace')"
  then show "search_company L W cfg company rpc sp mp trace =
      (Inr (py_slice_to all_results rpc), trace')"
    by (simp add: search_company_def)
next
  assume a: "build_search_url W cfg company (if sp < 1 then 1 else sp) rpc = Inr url \<and>
    session_get W cfg trace url = Inl RequestException"
  obtain rest where pages: "iter_pages sp mp = (if sp < 1 then 1 else sp) # rest"
    using iter_pages_first[of sp mp] by blast
  from a show first: "search_company L W cfg company rpc sp mp trace =
      (Inr [], trace @ [Fetch url (Inl RequestException)])"
    by (simp add: search_company_def pages Let_def py_slice_to_def)
  assume "py_strip name = company \<and> company \<noteq> []"
  with first show "search_companies_loop L W cfg (name # names) rpc sp mp combined trace =
       search_companies_loop L W cfg names rpc sp mp combined
         (trace @ [Fetch url (Inl RequestException)])"
    by (simp add: Let_def)
qed

theorem transport_failure_stops_name_witness:
  "search_for_companies plain_urllib
     (example_world (\<lambda>n. if n = 0 then Inl RequestException else Inr [acme_anchor]))
     example_config [''Beta'', ''Acme''] 5 1 1 [] =
   ([acme_record ''Acme''],
    [Fetch ''https://www.bing.com/search?q=site%3Alinkedin.com%2Fcompany+Beta&first=1&count=5''
       (Inl RequestException),
     Fetch ''https://www.bing.com/search?q=site%3Alinkedin.com%2Fcompany+Acme&first=1&count=5''
       (Inr [acme_anchor]),
     Sleep 1])"
proof -
  let ?W = "example_world (\<lambda>n. if n = 0 then Inl RequestException else Inr [acme_anchor])"
  let ?u = "''https://www.bing.com/search?q=site%3Alinkedin.com%2Fcompany+Beta&first=1&count=5''"
  have h: "build_search_url ?W example_config ''Beta'' (if (1::int) < 1 then 1 else 1) 5 = Inr ?u \<and>
    session_get ?W example_config [] ?u = Inl RequestException"
    by (simp add: search_eval digit_chars)
  have n: "py_strip ''Beta'' = ''Beta'' \<and> ''Beta'' \<noteq> []"
    by (simp add: py_strip_def py_isspace_def)
  from transport_failure_stops_name[THEN conjunct2, THEN conjunct2, THEN mp, OF h,
      THEN conjunct2, THEN mp, OF n]
  have "search_companies_loop plain_urllib ?W example_config [''Beta'', ''Acme''] 5 1 1 [] [] =
        search_companies_loop plain_urllib ?W example_config [''Acme''] 5 1 1 []
          ([] @ [Fetch ?u (Inl RequestException)])" .
  then show ?thesis
    by (simp add: search_eval anchor_eval digit_chars)
qed

section \<open>Normalization: properties\<close>










text \<open>
  Claim C10. The host test is containment of the text \<open>linkedin.com\<close>: an absolute URL on
  the foreign host \<open>linkedin.com.evil.example\<close> with a \<open>/company/\<close> path is accepted, and
  the canonical URL returned is on that host.
\<close>

theorem foreign_host_accepted:
  "map_sum id netloc (urlparse L ''https://linkedin.com.evil.example/company/acme'') =
     Inr ''linkedin.com.evil.example'' \<and>
   normalize_linkedin_url L ''https://linkedin.com.evil.example/company/acme'' =
     Inr (Some ''https://linkedin.com.evil.example/company/acme'')"
  by (simp add: str_eval url_eval)

theorem foreign_host_accepted_witness:
  "normalize_linkedin_url plain_urllib ''https://linkedin.com.evil.example/company/acme'' =
     Inr (Some ''https://linkedin.com.evil.example/company/acme'')"
  using foreign_host_accepted[of plain_urllib] by simp

lemma rstrip_char_no_suffix: "\<not> suffix [c] (rstrip_char c s)"
proof
  let ?d = "dropWhile (\<lambda>x. x = c) (rev s)"
  assume "suffix [c] (rstrip_char c s)"
  then obtain ys where "rev ?d = ys @ [c]"
    by (auto simp: suffix_def rstrip_char_def)
  then have "rev (rev ?d) = rev (ys @ [c])" by simp
  then have d: "?d = c # rev ys" by simp
  then have "?d \<noteq> []" by simp
  then have "hd ?d \<noteq> c" using hd_dropWhile[of "\<lambda>x. x = c" "rev s"] by simp
  with d show False by simp
qed

lemma rstrip_char_id: "\<not> suffix [c] s \<Longrightarrow> rstrip_char c s = s"
proof (cases "rev s")
  case Nil
  then show ?thesis by (simp add: rstrip_char_def)
next
  case (Cons x xs)
  assume ns: "\<not> suffix [c] s"
  have "rev (rev s) = rev (x # xs)" using Cons by simp
  then have s: "s = rev xs @ [x]" by simp
  with ns have "x \<noteq> c" by (auto simp: suffix_def)
  then have "dropWhile (\<lambda>x. x = c) (rev s) = rev s" using Cons by simp
  then show ?thesis by (simp add: rstrip_char_def)
qed

lemma normalize_parsed_Some:
  "normalize_parsed parsed = Some out \<Longrightarrow>
   sublist ''linkedin.com'' (netloc parsed) \<and> sublist ''/company/'' (path parsed) \<and>
   out = rstrip_char CHR ''/'' (urlunparse (parsed\<lparr>query := [], fragment := []\<rparr>))"
  by (auto simp: normalize_parsed_def Let_def rstrip_char_id split: if_splits)

lemma normalize_linkedin_url_Some:
  "normalize_linkedin_url L raw_url = Inr (Some out) \<Longrightarrow>
   \<exists>candidate parsed. urlparse L candidate = Inr parsed \<and> normalize_parsed parsed = Some out"
  by (auto simp: normalize_linkedin_url_def split: if_splits sum.splits list.splits)

text \<open>
  Claim C6, as amended. For every accepted URL, normalization strips all the trailing path
  separators of the rebuilt URL, so the canonical output never ends with a separator; in
  particular \<open>.../company/acme/\<close> and \<open>.../company/acme\<close> normalize identically.
\<close>

theorem trailing_separators_stripped:
  "(normalize_parsed parsed = Some out \<longrightarrow>
      out = rstrip_char CHR ''/'' (urlunparse (parsed\<lparr>query := [], fragment := []\<rparr>))) \<and>
   (normalize_linkedin_url L raw_url = Inr (Some out) \<longrightarrow> \<not> suffix ''/'' out) \<and>
   normalize_linkedin_url L ''https://www.linkedin.com/company/acme/'' =
     normalize_linkedin_url L ''https://www.linkedin.com/company/acme''"
proof (intro conjI impI)
  assume "normalize_parsed parsed = Some out"
  then show "out = rstrip_char CHR ''/'' (urlunparse (parsed\<lparr>query := [], fragment := []\<rparr>))"
    by (simp add: normalize_parsed_Some)
next
  assume "normalize_linkedin_url L raw_url = Inr (Some out)"
  then obtain candidate p where "normalize_parsed p = Some out"
    using normalize_linkedin_url_Some by blast
  then have "out = rstrip_char CHR ''/'' (urlunparse (p\<lparr>query := [], fragment := []\<rparr>))"
    by (simp add: normalize_parsed_Some)
  then show "\<not> suffix ''/'' out"
    by (simp add: rstrip_char_no_suffix)
next
  show "normalize_linkedin_url L ''https://www.linkedin.com/company/acme/'' =
     normalize_linkedin_url L ''https://www.linkedin.com/company/acme''"
    by (simp add: str_eval url_eval)
qed

theorem trailing_separators_stripped_witness:
  "normalize_linkedin_url plain_urllib ''https://www.linkedin.com/company/acme/'' =
     Inr (Some ''https://www.linkedin.com/company/acme'') \<and>
   \<not> suffix ''/'' ''https://www.linkedin.com/company/acme''"
proof -
  have v: "normalize_linkedin_url plain_urllib ''https://www.linkedin.com/company/acme/'' =
     Inr (Some ''https://www.linkedin.com/company/acme'')"
    by (rule normalize_acme)
  from trailing_separators_stripped[THEN conjunct2, THEN conjunct1, THEN mp, OF v]
  have "\<not> suffix ''/'' ''https://www.linkedin.com/company/acme''" .
  with v show ?thesis by blast
qed

text \<open>
  The claim as stated, that exactly one separator is stripped, fails when the rebuilt URL
  ends with two: both are stripped, where the claim would leave one.
\<close>

theorem trailing_separators_stripped_counterexample:
  "map_sum id (\<lambda>p. urlunparse (p\<lparr>query := [], fragment := []\<rparr>))
      (urlparse plain_urllib ''https://www.linkedin.com/company/acme//'') =
     Inr ''https://www.linkedin.com/company/acme//'' \<and>
   normalize_linkedin_url plain_urllib ''https://www.linkedin.com/company/acme//'' =
     Inr (Some ''https://www.linkedin.com/company/acme'') \<and>
   ''https://www.linkedin.com/company/acme'' \<noteq> butlast ''https://www.linkedin.com/company/acme//''"
  by (simp add: str_eval url_eval)

section \<open>Configuration: properties\<close>




end
